theory Spec2Isabelle
  imports Main "HOL-Library.Word"
begin

section \<open>The local wallet of shared/services/wallet/local-wallet.go\<close>

text \<open>
  The Go file keeps one mutable struct, \<open>LocalWallet\<close>, and talks to the file system
  (package \<open>os\<close>), to the password manager, and to libraries (bip39, hdkeychain, the
  keystore-v4 encryptor, JSON and UUID). A method of the struct is modelled as a function
  from the wallet and the outside world to its Go result, the wallet after the call and the
  world after the call. The libraries are pure functions collected in the record \<open>lib\<close>;
  whatever they draw from the system's random source is handed to them from the world.
\<close>

subsection \<open>Data\<close>

type_synonym byte = "8 word"
type_synonym bytes = "byte list"

text \<open>Go's \<open>uint\<close> on a 64-bit platform.\<close>
type_synonym uint = "64 word"

text \<open>\<open>uuid.UUID\<close> is an array of 16 bytes.\<close>
type_synonym uuid = "128 word"

text \<open>The message of an error value produced outside this file.\<close>
type_synonym lib_error = string

text \<open>
  A value of type \<open>interface{}\<close> inside the \<open>crypto\<close> object, kept as its JSON text;
  the wallet never looks inside it.
\<close>
datatype json_value = JsonValue string

text \<open>\<open>map[string]interface{}\<close>, listed by key.\<close>
type_synonym crypto_map = "(string \<times> json_value) list"

text \<open>The library's key types are opaque to the wallet.\<close>
datatype extended_key = ExtendedKey bytes
datatype ecdsa_key = EcdsaPrivateKey bytes
datatype bls_key = BLSPrivateKey bytes
datatype keystore = Keystore string

text \<open>The constants of the \<open>Config\<close> block.\<close>

definition EntropyBits :: nat where
  "EntropyBits = 256"

definition FileMode :: nat where
  "FileMode = 6 * 8 * 8"

definition DefaultNodeKeyPath :: string where
  "DefaultNodeKeyPath = ''m/44'/60'/0'/0/%d''"

definition LedgerLiveNodeKeyPath :: string where
  "LedgerLiveNodeKeyPath = ''m/44'/60'/%d/0/0''"

definition MyEtherWalletNodeKeyPath :: string where
  "MyEtherWalletNodeKeyPath = ''m/44'/60'/0'/%d''"

text \<open>\<open>localWalletStore\<close>. A nil \<open>Crypto\<close> map is \<open>None\<close>.\<close>

record localWalletStore =
  Crypto :: "crypto_map option"
  Name :: string
  Version :: uint
  UUID :: uuid
  DerivationPath :: string
  WalletIndex :: uint
  NextAccount :: uint

text \<open>
  \<open>LocalWallet\<close>. A nil pointer, a nil slice and a nil \<open>*big.Int\<close> are \<open>None\<close>.
  The fields \<open>pm\<close> and \<open>encryptor\<close> point to collaborators that never change after
  construction: the encryptor's methods are in \<open>lib\<close>, the password manager's answer
  is in the world.
\<close>

record LocalWallet =
  walletPath :: string
  chainID :: int
  ws :: "localWalletStore option"
  seed :: "bytes option"
  mk :: "extended_key option"
  nodeKey :: "ecdsa_key option"
  nodeKeyPath :: string
  validatorKeys :: "uint \<rightharpoonup> bls_key"
  keystores :: "string \<rightharpoonup> keystore"
  maxFee :: "int option"
  maxPriorityFee :: "int option"
  gasLimit :: "64 word"

subsection \<open>Errors\<close>

text \<open>An error of package \<open>os\<close>: \<open>os.IsNotExist\<close> holds of \<open>ErrNotExist\<close> only.\<close>
datatype os_error = ErrNotExist | ErrOther lib_error

text \<open>
  One constructor for each error the file builds, named after the error kinds of the
  specification where there is one:
  \<^item> \<open>NotInitialized\<close>: "Wallet is not initialized";
  \<^item> \<open>AlreadyInitialized\<close>: "Wallet is already initialized";
  \<^item> \<open>EntropyFailure\<close>: "Could not generate wallet mnemonic entropy bytes";
  \<^item> \<open>MnemonicFailure\<close>: "Could not generate wallet mnemonic";
  \<^item> \<open>InvalidMnemonic\<close>: "Invalid mnemonic '%s'";
  \<^item> \<open>KeyDerivationFailure\<close>: "Could not create wallet master key";
  \<^item> \<open>PasswordFailure\<close>: "Could not get wallet password";
  \<^item> \<open>EncryptionFailure\<close>: "Could not encrypt wallet seed";
  \<^item> \<open>DecryptionFailure\<close>: "Could not decrypt wallet seed";
  \<^item> \<open>DecodeFailure\<close>: "Could not decode wallet";
  \<^item> \<open>EncodeFailure\<close>: "Could not encode wallet";
  \<^item> \<open>WriteIOFailure\<close>: "Could not write wallet to disk";
  \<^item> \<open>StatIOFailure\<close>: "error checking wallet file path";
  \<^item> \<open>RemoveIOFailure\<close>: the error of \<open>os.Remove\<close>, returned as it is.
\<close>
datatype error =
    NotInitialized
  | AlreadyInitialized
  | EntropyFailure lib_error
  | MnemonicFailure lib_error
  | InvalidMnemonic string
  | KeyDerivationFailure lib_error
  | PasswordFailure lib_error
  | EncryptionFailure lib_error
  | DecryptionFailure lib_error
  | DecodeFailure lib_error
  | EncodeFailure lib_error
  | WriteIOFailure os_error
  | StatIOFailure os_error
  | RemoveIOFailure os_error

subsection \<open>The libraries\<close>

text \<open>
  The functions of other packages that the file calls. A Go result \<open>(v, err)\<close> is a sum,
  \<open>Inl\<close> the error. The Go code assigns \<open>w.seed, err = Decrypt(...)\<close> and
  \<open>w.mk, err = NewMaster(...)\<close> before it looks at \<open>err\<close>; both libraries return nil
  together with an error, so that the field is nil after a failed call.
  \<open>Unmarshal\<close> is \<open>json.Unmarshal\<close> into \<open>new(localWalletStore)\<close>: it gives the record
  as the decoder left it (a field absent from the document keeps its zero value) and the
  decoder's error, if any. \<open>Marshal\<close> takes the pointer \<open>w.ws\<close>.
  \<open>NewEntropy\<close>, \<open>Encrypt\<close> and \<open>uuid_New\<close> take the bytes they read from the
  random source as their last argument.
\<close>

record lib =
  NewEntropy :: "nat \<Rightarrow> bytes \<Rightarrow> lib_error + bytes"
  NewMnemonic :: "bytes \<Rightarrow> lib_error + string"
  IsMnemonicValid :: "string \<Rightarrow> bool"
  NewSeed :: "string \<Rightarrow> string \<Rightarrow> bytes"
  NewMaster :: "bytes \<Rightarrow> lib_error + extended_key"
  Encrypt :: "bytes \<Rightarrow> string \<Rightarrow> bytes \<Rightarrow> lib_error + crypto_map"
  Decrypt :: "crypto_map option \<Rightarrow> string \<Rightarrow> lib_error + bytes"
  encryptor_Name :: string
  encryptor_Version :: uint
  uuid_New :: "bytes \<Rightarrow> uuid"
  Marshal :: "localWalletStore option \<Rightarrow> lib_error + bytes"
  Unmarshal :: "bytes \<Rightarrow> localWalletStore \<times> lib_error option"

subsection \<open>The world outside the process\<close>

text \<open>
  A regular file has contents and permission bits. The world holds the files by path, the
  answer of the password manager's \<open>GetPassword\<close>, the random source (the chunk that the
  next read returns is \<open>rand\<close> at \<open>randPos\<close>), and for each call of package \<open>os\<close> the
  failure, if any, that the operating system answers for a path for a reason other than the
  file's absence (permissions, a full disk, a failing device).
\<close>

record regular_file =
  content :: bytes
  perm :: nat

datatype write_fault = OpenFails lib_error | WriteFails nat lib_error

record world =
  disk :: "string \<rightharpoonup> regular_file"
  statFault :: "string \<Rightarrow> lib_error option"
  readFault :: "string \<Rightarrow> lib_error option"
  writeFault :: "string \<Rightarrow> write_fault option"
  removeFault :: "string \<Rightarrow> lib_error option"
  pmPassword :: "lib_error + string"
  rand :: "nat \<Rightarrow> bytes"
  randPos :: nat

definition os_Stat :: "world \<Rightarrow> string \<Rightarrow> os_error option" where
  "os_Stat wd p =
     (case statFault wd p of
        Some e \<Rightarrow> Some (ErrOther e)
      | None \<Rightarrow> (case disk wd p of None \<Rightarrow> Some ErrNotExist | Some f \<Rightarrow> None))"

definition os_ReadFile :: "world \<Rightarrow> string \<Rightarrow> os_error + bytes" where
  "os_ReadFile wd p =
     (case readFault wd p of
        Some e \<Rightarrow> Inl (ErrOther e)
      | None \<Rightarrow> (case disk wd p of None \<Rightarrow> Inl ErrNotExist | Some f \<Rightarrow> Inr (content f)))"

text \<open>
  \<open>os.WriteFile\<close> opens the file with \<open>O_WRONLY|O_CREATE|O_TRUNC\<close>, writes and closes:
  it creates a missing file with the given permissions and truncates an existing one
  without changing its permissions. When the open fails nothing has changed; when the write
  fails after \<open>k\<close> bytes the file holds those bytes only.
\<close>

definition os_WriteFile :: "world \<Rightarrow> string \<Rightarrow> bytes \<Rightarrow> nat \<Rightarrow> os_error option \<times> world" where
  "os_WriteFile wd p data m =
     (let pm = (case disk wd p of None \<Rightarrow> m | Some f \<Rightarrow> perm f) in
      case writeFault wd p of
        Some (OpenFails e) \<Rightarrow> (Some (ErrOther e), wd)
      | Some (WriteFails k e) \<Rightarrow>
          (Some (ErrOther e), wd\<lparr>disk := (disk wd)(p \<mapsto> \<lparr>content = take k data, perm = pm\<rparr>)\<rparr>)
      | None \<Rightarrow> (None, wd\<lparr>disk := (disk wd)(p \<mapsto> \<lparr>content = data, perm = pm\<rparr>)\<rparr>))"

definition os_Remove :: "world \<Rightarrow> string \<Rightarrow> os_error option \<times> world" where
  "os_Remove wd p =
     (case removeFault wd p of
        Some e \<Rightarrow> (Some (ErrOther e), wd)
      | None \<Rightarrow>
         (case disk wd p of
            None \<Rightarrow> (Some ErrNotExist, wd)
          | Some f \<Rightarrow> (None, wd\<lparr>disk := (disk wd)(p := None)\<rparr>)))"

text \<open>
  Modelled from the spec: the password provider's \<open>GetPassword() -> (password, error)\<close>
  (package \<open>passwords\<close> is not among the sources). It supplies the password or fails;
  its answer is a parameter of the world.
\<close>

definition GetPassword :: "world \<Rightarrow> lib_error + string" where
  "GetPassword wd = pmPassword wd"

text \<open>One read from the system's random source.\<close>

definition rand_Read :: "world \<Rightarrow> bytes \<times> world" where
  "rand_Read wd = (rand wd (randPos wd), wd\<lparr>randPos := Suc (randPos wd)\<rparr>)"

subsection \<open>The methods of LocalWallet\<close>

definition IsInitialized :: "LocalWallet \<Rightarrow> bool" where
  "IsInitialized w = (ws w \<noteq> None \<and> seed w \<noteq> None \<and> mk w \<noteq> None)"

text \<open>\<open>loadStore\<close>: load the wallet store from disk and decrypt it.\<close>

definition loadStore :: "lib \<Rightarrow> LocalWallet \<Rightarrow> world \<Rightarrow> (bool \<times> error option) \<times> LocalWallet \<times> world" where
  "loadStore l w wd =
     (case os_ReadFile wd (walletPath w) of
        Inl err \<Rightarrow> ((False, None), w, wd)
      | Inr wsBytes \<Rightarrow>
         (case Unmarshal l wsBytes of
            (st, Some err) \<Rightarrow> ((False, Some (DecodeFailure err)), w\<lparr>ws := Some st\<rparr>, wd)
          | (st, None) \<Rightarrow>
             (let st1 = (if DerivationPath st = [] then st\<lparr>DerivationPath := DefaultNodeKeyPath\<rparr> else st);
                  w1 = w\<lparr>ws := Some st1\<rparr>
              in case GetPassword wd of
                   Inl err \<Rightarrow> ((False, Some (PasswordFailure err)), w1, wd)
                 | Inr password \<Rightarrow>
                    (case Decrypt l (Crypto st1) password of
                       Inl err \<Rightarrow> ((False, Some (DecryptionFailure err)), w1\<lparr>seed := None\<rparr>, wd)
                     | Inr s \<Rightarrow>
                        (case NewMaster l s of
                           Inl err \<Rightarrow>
                             ((False, Some (KeyDerivationFailure err)), w1\<lparr>seed := Some s, mk := None\<rparr>, wd)
                         | Inr k \<Rightarrow> ((True, None), w1\<lparr>seed := Some s, mk := Some k\<rparr>, wd))))))"

text \<open>\<open>NewLocalWallet\<close>: build the struct, then load and decrypt the wallet store.\<close>

definition NewLocalWallet ::
  "lib \<Rightarrow> string \<Rightarrow> uint \<Rightarrow> int option \<Rightarrow> int option \<Rightarrow> 64 word \<Rightarrow> world \<Rightarrow> (error + LocalWallet) \<times> world" where
  "NewLocalWallet l path chainId fee priorityFee limit wd =
     (let w = \<lparr>walletPath = path, chainID = sint chainId, ws = None, seed = None, mk = None,
               nodeKey = None, nodeKeyPath = [], validatorKeys = Map.empty,
               keystores = Map.empty, maxFee = fee, maxPriorityFee = priorityFee,
               gasLimit = limit\<rparr>
      in case loadStore l w wd of
           ((ok, Some err), w', wd') \<Rightarrow> (Inl err, wd')
         | ((ok, None), w', wd') \<Rightarrow> (Inr w', wd'))"

text \<open>\<open>GetInitialized\<close>: attempt to initialize the wallet if not initialized and return status.\<close>

definition GetInitialized :: "lib \<Rightarrow> LocalWallet \<Rightarrow> world \<Rightarrow> (bool \<times> error option) \<times> LocalWallet \<times> world" where
  "GetInitialized l w wd =
     (if IsInitialized w then ((True, None), w, wd) else loadStore l w wd)"

text \<open>\<open>Reload\<close>: reloads wallet from disk.\<close>

definition Reload :: "lib \<Rightarrow> LocalWallet \<Rightarrow> world \<Rightarrow> error option \<times> LocalWallet \<times> world" where
  "Reload l w wd = (case loadStore l w wd of ((ok, err), w', wd') \<Rightarrow> (err, w', wd'))"

text \<open>\<open>initializeStore\<close>: initialize the encrypted wallet store from a mnemonic.\<close>

definition initializeStore ::
  "lib \<Rightarrow> string \<Rightarrow> uint \<Rightarrow> string \<Rightarrow> LocalWallet \<Rightarrow> world \<Rightarrow> error option \<times> LocalWallet \<times> world" where
  "initializeStore l derivationPath walletIndex mnemonic w wd =
     (let s = NewSeed l mnemonic [];
          w1 = w\<lparr>seed := Some s\<rparr>
      in case NewMaster l s of
           Inl err \<Rightarrow> (Some (KeyDerivationFailure err), w1\<lparr>mk := None\<rparr>, wd)
         | Inr k \<Rightarrow>
            (let w2 = w1\<lparr>mk := Some k\<rparr>
             in case GetPassword wd of
                  Inl err \<Rightarrow> (Some (PasswordFailure err), w2, wd)
                | Inr password \<Rightarrow>
                   (case rand_Read wd of (r1, wd1) \<Rightarrow>
                      (case Encrypt l s password r1 of
                         Inl err \<Rightarrow> (Some (EncryptionFailure err), w2, wd1)
                       | Inr encryptedSeed \<Rightarrow>
                          (case rand_Read wd1 of (r2, wd2) \<Rightarrow>
                             (None,
                              w2\<lparr>ws := Some \<lparr>Crypto = Some encryptedSeed,
                                             Name = encryptor_Name l,
                                             Version = encryptor_Version l,
                                             UUID = uuid_New l r2,
                                             DerivationPath = derivationPath,
                                             WalletIndex = walletIndex,
                                             NextAccount = 0\<rparr>\<rparr>,
                              wd2))))))"

text \<open>\<open>Initialize\<close>: initialize the wallet from a random seed.\<close>

definition Initialize ::
  "lib \<Rightarrow> string \<Rightarrow> uint \<Rightarrow> LocalWallet \<Rightarrow> world \<Rightarrow> (error + string) \<times> LocalWallet \<times> world" where
  "Initialize l derivationPath walletIndex w wd =
     (if IsInitialized w then (Inl AlreadyInitialized, w, wd)
      else case rand_Read wd of (r, wd1) \<Rightarrow>
        (case NewEntropy l EntropyBits r of
           Inl err \<Rightarrow> (Inl (EntropyFailure err), w, wd1)
         | Inr entropy \<Rightarrow>
            (case NewMnemonic l entropy of
               Inl err \<Rightarrow> (Inl (MnemonicFailure err), w, wd1)
             | Inr mnemonic \<Rightarrow>
                (case initializeStore l derivationPath walletIndex mnemonic w wd1 of
                   (Some err, w', wd') \<Rightarrow> (Inl err, w', wd')
                 | (None, w', wd') \<Rightarrow> (Inr mnemonic, w', wd')))))"

text \<open>\<open>Recover\<close>: recover a wallet from a mnemonic.\<close>

definition Recover ::
  "lib \<Rightarrow> string \<Rightarrow> uint \<Rightarrow> string \<Rightarrow> LocalWallet \<Rightarrow> world \<Rightarrow> error option \<times> LocalWallet \<times> world" where
  "Recover l derivationPath walletIndex mnemonic w wd =
     (if IsInitialized w then (Some AlreadyInitialized, w, wd)
      else if \<not> IsMnemonicValid l mnemonic then (Some (InvalidMnemonic mnemonic), w, wd)
      else initializeStore l derivationPath walletIndex mnemonic w wd)"

text \<open>\<open>TestRecovery\<close>: recover a wallet from a mnemonic, only used for testing mnemonics.\<close>

definition TestRecovery ::
  "lib \<Rightarrow> string \<Rightarrow> uint \<Rightarrow> string \<Rightarrow> LocalWallet \<Rightarrow> world \<Rightarrow> error option \<times> LocalWallet \<times> world" where
  "TestRecovery l derivationPath walletIndex mnemonic w wd =
     (if \<not> IsMnemonicValid l mnemonic then (Some (InvalidMnemonic mnemonic), w, wd)
      else
        (let s = NewSeed l mnemonic [];
             w1 = w\<lparr>seed := Some s\<rparr>
         in case NewMaster l s of
              Inl err \<Rightarrow> (Some (KeyDerivationFailure err), w1\<lparr>mk := None\<rparr>, wd)
            | Inr k \<Rightarrow>
               (case rand_Read wd of (r, wd1) \<Rightarrow>
                  (None,
                   w1\<lparr>mk := Some k,
                      ws := Some \<lparr>Crypto = None,
                                  Name = encryptor_Name l,
                                  Version = encryptor_Version l,
                                  UUID = uuid_New l r,
                                  DerivationPath = derivationPath,
                                  WalletIndex = walletIndex,
                                  NextAccount = 0\<rparr>\<rparr>,
                   wd1))))"

text \<open>\<open>Save\<close>: save the wallet store to disk.\<close>

definition Save :: "lib \<Rightarrow> LocalWallet \<Rightarrow> world \<Rightarrow> error option \<times> LocalWallet \<times> world" where
  "Save l w wd =
     (if \<not> IsInitialized w then (Some NotInitialized, w, wd)
      else case Marshal l (ws w) of
             Inl err \<Rightarrow> (Some (EncodeFailure err), w, wd)
           | Inr wsBytes \<Rightarrow>
              (case os_WriteFile wd (walletPath w) wsBytes FileMode of
                 (Some err, wd') \<Rightarrow> (Some (WriteIOFailure err), w, wd')
               | (None, wd') \<Rightarrow> (None, w, wd')))"

text \<open>\<open>Delete\<close>: delete the wallet store from disk.\<close>

definition Delete :: "LocalWallet \<Rightarrow> world \<Rightarrow> error option \<times> LocalWallet \<times> world" where
  "Delete w wd =
     (case os_Stat wd (walletPath w) of
        Some ErrNotExist \<Rightarrow> (None, w, wd)
      | Some (ErrOther e) \<Rightarrow> (Some (StatIOFailure (ErrOther e)), w, wd)
      | None \<Rightarrow>
         (case os_Remove wd (walletPath w) of
            (Some err, wd') \<Rightarrow> (Some (RemoveIOFailure err), w, wd')
          | (None, wd') \<Rightarrow> (None, w, wd')))"

subsection \<open>The node key and its address\<close>

text \<open>
  Modelled from the spec: the hierarchical key derivation of its section 4.2, whose code is
  not among the sources. \<open>DeriveNodeKey(masterKey, pathTemplate, accountIndex)\<close> "fills the
  template's index placeholder with accountIndex, walks BIP-32 child derivation, returns a
  secp256k1 private key", and it is "pure given its inputs". \<open>FillTemplate\<close> is the path
  with the placeholder filled, the "derivationPathUsed" of section 4.4, and \<open>KeyAddress\<close>
  is the on-chain address that a node key stands for.
\<close>

type_synonym address = "160 word"

record derivation =
  DeriveNodeKey :: "extended_key \<Rightarrow> string \<Rightarrow> uint \<Rightarrow> lib_error + ecdsa_key"
  FillTemplate :: "string \<Rightarrow> uint \<Rightarrow> string"
  KeyAddress :: "ecdsa_key \<Rightarrow> address"

text \<open>
  Modelled from the spec: \<open>GetNodeKey(accountIndex=current) -> (ecdsaKey, derivationPathUsed)\<close>
  of section 4.4, whose code is not among the sources. It "returns cached key if present for
  that exact path+index; otherwise derives, caches, and returns it. Fails NotInitialized if
  no seed is loaded." The template and the current index are those of the store, and the
  cache is the pair \<open>nodeKey\<close>, \<open>nodeKeyPath\<close> of the wallet, "keyed by the exact path
  used". Without a seed, a master key or a store there is nothing to derive from.
\<close>

definition GetNodeKey :: "derivation \<Rightarrow> LocalWallet \<Rightarrow> (error + ecdsa_key \<times> string) \<times> LocalWallet" where
  "GetNodeKey d w =
     (case seed w of
        None \<Rightarrow> (Inl NotInitialized, w)
      | Some s \<Rightarrow>
         (case mk w of
            None \<Rightarrow> (Inl NotInitialized, w)
          | Some k \<Rightarrow>
             (case ws w of
                None \<Rightarrow> (Inl NotInitialized, w)
              | Some st \<Rightarrow>
                 (let path = FillTemplate d (DerivationPath st) (WalletIndex st)
                  in case (if nodeKeyPath w = path then nodeKey w else None) of
                       Some key \<Rightarrow> (Inr (key, path), w)
                     | None \<Rightarrow>
                        (case DeriveNodeKey d k (DerivationPath st) (WalletIndex st) of
                           Inl err \<Rightarrow> (Inl (KeyDerivationFailure err), w)
                         | Inr key \<Rightarrow>
                            (Inr (key, path), w\<lparr>nodeKey := Some key, nodeKeyPath := path\<rparr>))))))"

text \<open>
  Modelled from the spec: the node address, which is what section 6 exposes of
  \<open>GetNodeKey\<close> to the transaction-submission layer ("address only").
\<close>

definition NodeAddress :: "derivation \<Rightarrow> LocalWallet \<Rightarrow> error + address" where
  "NodeAddress d w =
     (case fst (GetNodeKey d w) of
        Inl err \<Rightarrow> Inl err
      | Inr (key, path) \<Rightarrow> Inr (KeyAddress d key))"

subsection \<open>A small instance to run the model on\<close>

text \<open>
  Stand-ins for the libraries, with one valid mnemonic, one seed and a cipher that keeps the
  password it was given; three documents that the decoder knows (a store written by this
  version, a legacy store without a derivation path, and a store tagged with a scheme the
  encryptor does not have); and a few wallets and worlds built from them.
\<close>

definition stub_mnemonic :: string where
  "stub_mnemonic = ''legal winner thank year wave sausage worth useful legal winner thank yellow''"

definition stub_seed :: bytes where
  "stub_seed = [0x2e, 0x89, 0x05, 0x81]"

definition stub_store :: localWalletStore where
  "stub_store = \<lparr>Crypto = Some [(''password'', JsonValue ''correct'')], Name = ''keystore'',
     Version = 4, UUID = 7, DerivationPath = LedgerLiveNodeKeyPath, WalletIndex = 2,
     NextAccount = 0\<rparr>"

definition stub_lib :: lib where
  "stub_lib =
     \<lparr>NewEntropy = (\<lambda>n r. if n = 256 then Inr (take 32 r) else Inl ''invalid entropy size''),
      NewMnemonic = (\<lambda>e. if e = [] then Inl ''invalid entropy length'' else Inr stub_mnemonic),
      IsMnemonicValid = (\<lambda>m. m = stub_mnemonic),
      NewSeed = (\<lambda>m p. if m = stub_mnemonic then stub_seed else [0]),
      NewMaster = (\<lambda>s. if s = [] then Inl ''invalid seed length'' else Inr (ExtendedKey s)),
      Encrypt = (\<lambda>s pw r. Inr [(''password'', JsonValue pw)]),
      Decrypt = (\<lambda>c pw. case c of
                   None \<Rightarrow> Inl ''no data supplied''
                 | Some m \<Rightarrow> if m = [(''password'', JsonValue pw)] then Inr stub_seed
                             else Inl ''invalid checksum''),
      encryptor_Name = ''keystore'',
      encryptor_Version = 4,
      uuid_New = (\<lambda>r. case r of [] \<Rightarrow> 0 | b # bs \<Rightarrow> ucast b),
      Marshal = (\<lambda>p. case p of None \<Rightarrow> Inr [0] | Some st \<Rightarrow> Inr [1, 1, 1]),
      Unmarshal = (\<lambda>b. if b = [1, 1, 1] then (stub_store, None)
                        else if b = [2] then (stub_store\<lparr>DerivationPath := []\<rparr>, None)
                        else if b = [3] then (stub_store\<lparr>Name := ''bogus'', Version := 99\<rparr>, None)
                        else (stub_store\<lparr>Crypto := None\<rparr>, Some ''unexpected end of JSON input''))\<rparr>"

text \<open>A wallet as \<open>NewLocalWallet\<close> builds it when there is no store file.\<close>

definition stub_fresh :: LocalWallet where
  "stub_fresh =
     \<lparr>walletPath = ''/data/wallet'', chainID = 1, ws = None, seed = None, mk = None,
      nodeKey = None, nodeKeyPath = [], validatorKeys = Map.empty, keystores = Map.empty,
      maxFee = None, maxPriorityFee = None, gasLimit = 0\<rparr>"

text \<open>
  A wallet that was loaded some time ago and has derived a node key and a validator key
  since: its store, seed and master key are older than what the files below hold.
\<close>

definition stub_loaded :: LocalWallet where
  "stub_loaded =
     stub_fresh\<lparr>ws := Some (stub_store\<lparr>UUID := 5\<rparr>), seed := Some [0xaa, 0xbb],
                mk := Some (ExtendedKey [0xaa, 0xbb]), nodeKey := Some (EcdsaPrivateKey [9]),
                nodeKeyPath := ''m/44'/60'/2/0/0'',
                validatorKeys := [0 \<mapsto> BLSPrivateKey [8]]\<rparr>"

text \<open>A fresh wallet of another process, at another path and on another chain.\<close>

definition stub_elsewhere :: LocalWallet where
  "stub_elsewhere = stub_fresh\<lparr>walletPath := ''/tmp/other'', chainID := 5\<rparr>"

text \<open>A world with no files and no failures, where the password is ''correct''.\<close>

definition stub_world :: world where
  "stub_world =
     \<lparr>disk = Map.empty, statFault = (\<lambda>p. None), readFault = (\<lambda>p. None),
      writeFault = (\<lambda>p. None), removeFault = (\<lambda>p. None), pmPassword = Inr ''correct'',
      rand = (\<lambda>n. [of_nat n, 1, 2]), randPos = 0\<rparr>"

text \<open>The same world with a store file: written by this version, legacy, or foreign.\<close>

definition stub_saved :: world where
  "stub_saved =
     stub_world\<lparr>disk := [''/data/wallet'' \<mapsto> \<lparr>content = [1, 1, 1], perm = FileMode\<rparr>]\<rparr>"

definition stub_legacy :: world where
  "stub_legacy = stub_world\<lparr>disk := [''/data/wallet'' \<mapsto> \<lparr>content = [2], perm = FileMode\<rparr>]\<rparr>"


text \<open>The saved world after the password was changed.\<close>

definition stub_wrong_password :: world where
  "stub_wrong_password = stub_saved\<lparr>pmPassword := Inr ''wrong''\<rparr>"

text \<open>A world whose disk fills up after one byte of a write to the store file.\<close>

definition stub_full_disk :: world where
  "stub_full_disk =
     stub_legacy\<lparr>writeFault := (\<lambda>p. Some (WriteFails 1 ''no space left on device''))\<rparr>"

text \<open>A later world: another password, a random source further on.\<close>

definition stub_later :: world where
  "stub_later = stub_saved\<lparr>pmPassword := Inr ''another'', randPos := 40\<rparr>"

text \<open>A stand-in for the key derivation: the key keeps the index and the master key.\<close>

definition stub_derivation :: derivation where
  "stub_derivation =
     \<lparr>DeriveNodeKey = (\<lambda>k t i. case k of ExtendedKey bs \<Rightarrow>
                          if t = [] then Inl ''invalid path'' else Inr (EcdsaPrivateKey (ucast i # bs))),
      FillTemplate = (\<lambda>t i. if t = LedgerLiveNodeKeyPath \<and> i = 2 then ''m/44'/60'/2/0/0'' else t),
      KeyAddress = (\<lambda>k. case k of EcdsaPrivateKey bs \<Rightarrow> of_nat (length bs))\<rparr>"

text \<open>The saved world with a second file next to the store.\<close>

definition stub_two_files :: world where
  "stub_two_files =
     stub_saved\<lparr>disk := (disk stub_saved)(''/data/password'' \<mapsto> \<lparr>content = [7], perm = FileMode\<rparr>)\<rparr>"

lemmas wallet_defs =
  IsInitialized_def loadStore_def NewLocalWallet_def GetInitialized_def Reload_def
  initializeStore_def Initialize_def Recover_def TestRecovery_def Save_def Delete_def
  os_Stat_def os_ReadFile_def os_WriteFile_def os_Remove_def GetPassword_def rand_Read_def
  EntropyBits_def Let_def

lemmas stub_defs =
  stub_mnemonic_def stub_seed_def stub_store_def stub_lib_def stub_fresh_def stub_loaded_def
  stub_world_def stub_saved_def

section \<open>Properties\<close>

subsection \<open>Facts used for several claims\<close>

text \<open>Loading the store reads the world and never changes it.\<close>

lemma loadStore_world: "snd (snd (loadStore l w wd)) = wd"
  by (simp add: loadStore_def Let_def split: sum.splits prod.splits option.splits)

text \<open>What a successful \<open>initializeStore\<close>, \<open>Recover\<close> or \<open>Initialize\<close> has done.\<close>

lemma initializeStore_result:
  assumes "initializeStore l p i m w wd = (None, w', wd')"
  shows "\<exists>k pw enc. NewMaster l (NewSeed l m []) = Inr k \<and> GetPassword wd = Inr pw
     \<and> Encrypt l (NewSeed l m []) pw (rand wd (randPos wd)) = Inr enc
     \<and> w' = w\<lparr>seed := Some (NewSeed l m []), mk := Some k,
               ws := Some \<lparr>Crypto = Some enc, Name = encryptor_Name l,
                           Version = encryptor_Version l,
                           UUID = uuid_New l (rand wd (Suc (randPos wd))),
                           DerivationPath = p, WalletIndex = i, NextAccount = 0\<rparr>\<rparr>
     \<and> wd' = wd\<lparr>randPos := Suc (Suc (randPos wd))\<rparr>"
  using assms
  by (auto simp: initializeStore_def Let_def rand_Read_def split: sum.splits prod.splits)

lemma Recover_result:
  assumes "Recover l p i m w wd = (None, w', wd')"
  shows "\<exists>k pw enc. NewMaster l (NewSeed l m []) = Inr k \<and> GetPassword wd = Inr pw
     \<and> Encrypt l (NewSeed l m []) pw (rand wd (randPos wd)) = Inr enc
     \<and> w' = w\<lparr>seed := Some (NewSeed l m []), mk := Some k,
               ws := Some \<lparr>Crypto = Some enc, Name = encryptor_Name l,
                           Version = encryptor_Version l,
                           UUID = uuid_New l (rand wd (Suc (randPos wd))),
                           DerivationPath = p, WalletIndex = i, NextAccount = 0\<rparr>\<rparr>
     \<and> wd' = wd\<lparr>randPos := Suc (Suc (randPos wd))\<rparr>"
  using assms initializeStore_result [of l p i m w wd w' wd']
  by (simp add: Recover_def split: if_splits)

lemma Initialize_result:
  assumes "Initialize l p i w wd = (Inr m, w', wd')"
  shows "\<exists>k st. NewMaster l (NewSeed l m []) = Inr k
     \<and> w' = w\<lparr>seed := Some (NewSeed l m []), mk := Some k, ws := Some st\<rparr>
     \<and> DerivationPath st = p \<and> WalletIndex st = i"
proof -
  from assms obtain wd1 where "initializeStore l p i m w wd1 = (None, w', wd')"
    by (auto simp: Initialize_def rand_Read_def
        split: if_splits sum.splits prod.splits option.splits)
  from initializeStore_result [OF this] obtain k pw enc where
    r: "NewMaster l (NewSeed l m []) = Inr k"
       "w' = w\<lparr>seed := Some (NewSeed l m []), mk := Some k,
               ws := Some \<lparr>Crypto = Some enc, Name = encryptor_Name l,
                           Version = encryptor_Version l,
                           UUID = uuid_New l (rand wd1 (Suc (randPos wd1))),
                           DerivationPath = p, WalletIndex = i, NextAccount = 0\<rparr>\<rparr>"
    by blast
  let ?st = "\<lparr>Crypto = Some enc, Name = encryptor_Name l, Version = encryptor_Version l,
              UUID = uuid_New l (rand wd1 (Suc (randPos wd1))),
              DerivationPath = p, WalletIndex = i, NextAccount = 0\<rparr>"
  from r have "NewMaster l (NewSeed l m []) = Inr k
     \<and> w' = w\<lparr>seed := Some (NewSeed l m []), mk := Some k, ws := Some ?st\<rparr>
     \<and> DerivationPath ?st = p \<and> WalletIndex ?st = i"
    by simp
  then show ?thesis by blast
qed

text \<open>A wallet that \<open>NewLocalWallet\<close> returns has an empty node-key cache.\<close>

lemma NewLocalWallet_cache:
  assumes "NewLocalWallet l path c fee pfee lim wd = (Inr w, wd')"
  shows "nodeKey w = None \<and> nodeKeyPath w = []"
  using assms
  by (auto simp: NewLocalWallet_def loadStore_def os_ReadFile_def Let_def
      split: sum.splits prod.splits option.splits if_splits)

text \<open>With an empty cache the node key is derived from the master key and the store.\<close>

lemma GetNodeKey_derives:
  assumes "nodeKey w = None" and "DerivationPath st = p" and "WalletIndex st = i"
  shows "fst (GetNodeKey d (w\<lparr>seed := Some s, mk := Some k, ws := Some st\<rparr>)) =
     (case DeriveNodeKey d k p i of
        Inl e \<Rightarrow> Inl (KeyDerivationFailure e)
      | Inr key \<Rightarrow> Inr (key, FillTemplate d p i))"
  using assms by (simp add: GetNodeKey_def Let_def split: sum.splits)

lemma NodeAddress_derives:
  assumes "nodeKey w = None" and "DerivationPath st = p" and "WalletIndex st = i"
  shows "NodeAddress d (w\<lparr>seed := Some s, mk := Some k, ws := Some st\<rparr>) =
     (case DeriveNodeKey d k p i of
        Inl e \<Rightarrow> Inl (KeyDerivationFailure e)
      | Inr key \<Rightarrow> Inr (KeyAddress d key))"
  by (simp add: NodeAddress_def GetNodeKey_derives [OF assms] split: sum.splits)

text \<open>The two wallets of the instance.\<close>

lemma stub_loaded_initialized: "IsInitialized stub_loaded"
  by (simp add: IsInitialized_def stub_loaded_def stub_fresh_def)

lemma stub_fresh_uninitialized: "\<not> IsInitialized stub_fresh"
  by (simp add: IsInitialized_def stub_fresh_def)

lemma stub_paths:
  "walletPath stub_loaded = ''/data/wallet''" "walletPath stub_fresh = ''/data/wallet''"
  by (simp_all add: stub_loaded_def stub_fresh_def)

subsection \<open>C1: a reload whose decryption fails\<close>

text \<open>
  Claim C1, as the code has it. When the store file is read and decoded, the password is
  obtained and the decryptor rejects the seed, \<open>Reload\<close> returns the decryption error
  ("Could not decrypt wallet seed"), the in-memory store is replaced by the record decoded
  from the file (with the legacy derivation path filled in), the seed is nil, so that
  \<open>IsInitialized\<close> is false, and the master key, the node-key cache and the validator-key
  cache are what they were before the call; the world is unchanged.
\<close>

theorem Reload_decrypt_failure:
  assumes "os_ReadFile wd (walletPath w) = Inr bs"
    and "Unmarshal l bs = (st, None)"
    and "GetPassword wd = Inr pw"
    and "Decrypt l (Crypto st) pw = Inl e"
  shows "Reload l w wd =
           (Some (DecryptionFailure e),
            w\<lparr>ws := Some (if DerivationPath st = [] then st\<lparr>DerivationPath := DefaultNodeKeyPath\<rparr>
                           else st),
              seed := None\<rparr>,
            wd)
         \<and> \<not> IsInitialized (fst (snd (Reload l w wd)))
         \<and> mk (fst (snd (Reload l w wd))) = mk w
         \<and> nodeKey (fst (snd (Reload l w wd))) = nodeKey w
         \<and> nodeKeyPath (fst (snd (Reload l w wd))) = nodeKeyPath w
         \<and> validatorKeys (fst (snd (Reload l w wd))) = validatorKeys w"
  using assms by (simp add: Reload_def loadStore_def IsInitialized_def)

text \<open>
  Claim C1, witness: the loaded wallet with its cached keys, the saved store on disk and a
  password that is no longer the right one.
\<close>

theorem Reload_decrypt_failure_witness:
  "os_ReadFile stub_wrong_password (walletPath stub_loaded) = Inr [1, 1, 1]
   \<and> Unmarshal stub_lib [1, 1, 1] = (stub_store, None)
   \<and> GetPassword stub_wrong_password = Inr ''wrong''
   \<and> Decrypt stub_lib (Crypto stub_store) ''wrong'' = Inl ''invalid checksum''
   \<and> Reload stub_lib stub_loaded stub_wrong_password =
       (Some (DecryptionFailure ''invalid checksum''),
        stub_loaded\<lparr>ws := Some stub_store, seed := None\<rparr>,
        stub_wrong_password)
   \<and> \<not> IsInitialized (fst (snd (Reload stub_lib stub_loaded stub_wrong_password)))"
proof -
  have h1: "os_ReadFile stub_wrong_password (walletPath stub_loaded) = Inr [1, 1, 1]"
    by (simp add: os_ReadFile_def stub_wrong_password_def stub_defs)
  have h2: "Unmarshal stub_lib [1, 1, 1] = (stub_store, None)"
    by (simp add: stub_lib_def)
  have h3: "GetPassword stub_wrong_password = Inr ''wrong''"
    by (simp add: GetPassword_def stub_wrong_password_def)
  have h4: "Decrypt stub_lib (Crypto stub_store) ''wrong'' = Inl ''invalid checksum''"
    by (simp add: stub_lib_def stub_store_def)
  have p: "DerivationPath stub_store \<noteq> []"
    by (simp add: stub_store_def LedgerLiveNodeKeyPath_def)
  show ?thesis
    using Reload_decrypt_failure [OF h1 h2 h3 h4] h1 h2 h3 h4 p
    by (simp add: IsInitialized_def)
qed

text \<open>
  Claim C1, as the specification words it, fails: the reload does not drop the caches first
  and it does populate part of the state. After the failed reload of the loaded wallet the
  old master key, the cached node key and the cached validator key are still there, and the
  store record in memory is the one just read from the file, not the one held before.
\<close>

theorem Reload_drops_caches_counterexample:
  "fst (Reload stub_lib stub_loaded stub_wrong_password) =
     Some (DecryptionFailure ''invalid checksum'')
   \<and> mk (fst (snd (Reload stub_lib stub_loaded stub_wrong_password))) =
       Some (ExtendedKey [0xaa, 0xbb])
   \<and> nodeKey (fst (snd (Reload stub_lib stub_loaded stub_wrong_password))) =
       Some (EcdsaPrivateKey [9])
   \<and> validatorKeys (fst (snd (Reload stub_lib stub_loaded stub_wrong_password))) 0 =
       Some (BLSPrivateKey [8])
   \<and> ws (fst (snd (Reload stub_lib stub_loaded stub_wrong_password))) = Some stub_store
   \<and> ws stub_loaded \<noteq> Some stub_store"
  by (simp add: wallet_defs stub_defs stub_wrong_password_def LedgerLiveNodeKeyPath_def)

subsection \<open>C2: what a failed write leaves on disk\<close>

text \<open>
  Claim C2, as the code has it. \<open>Save\<close> on an initialized wallet whose store encodes to
  \<open>bs\<close> is one call of \<open>os.WriteFile\<close> on the wallet's path, with no temporary file and
  no rename. Without a failure the file holds \<open>bs\<close>. When the file cannot be opened,
  \<open>Save\<close> fails with the write error and the disk is as before. When the write fails
  after \<open>k\<close> bytes, \<open>Save\<close> fails with the write error and the file holds the first
  \<open>k\<close> bytes of \<open>bs\<close>: what it held before is gone. No other file and nothing in the
  wallet changes in any of the three cases.
\<close>

theorem Save_write_outcome:
  assumes "IsInitialized w" and "Marshal l (ws w) = Inr bs"
  shows "Save l w wd =
     (let pm = (case disk wd (walletPath w) of None \<Rightarrow> FileMode | Some f \<Rightarrow> perm f) in
      case writeFault wd (walletPath w) of
        None \<Rightarrow>
          (None, w, wd\<lparr>disk := (disk wd)(walletPath w \<mapsto> \<lparr>content = bs, perm = pm\<rparr>)\<rparr>)
      | Some (OpenFails e) \<Rightarrow> (Some (WriteIOFailure (ErrOther e)), w, wd)
      | Some (WriteFails k e) \<Rightarrow>
          (Some (WriteIOFailure (ErrOther e)), w,
           wd\<lparr>disk := (disk wd)(walletPath w \<mapsto> \<lparr>content = take k bs, perm = pm\<rparr>)\<rparr>))
     \<and> (\<forall>p. p \<noteq> walletPath w \<longrightarrow> disk (snd (snd (Save l w wd))) p = disk wd p)"
  using assms
  by (simp add: Save_def os_WriteFile_def Let_def split: option.splits write_fault.splits)

text \<open>
  Claim C2, witness: the loaded wallet is saved over a legacy store file on a disk that
  fills up after one byte; a second file is not touched.
\<close>

theorem Save_write_outcome_witness:
  "IsInitialized stub_loaded
   \<and> Marshal stub_lib (ws stub_loaded) = Inr [1, 1, 1]
   \<and> Save stub_lib stub_loaded stub_full_disk =
       (Some (WriteIOFailure (ErrOther ''no space left on device'')), stub_loaded,
        stub_full_disk\<lparr>disk := [''/data/wallet'' \<mapsto> \<lparr>content = [1], perm = FileMode\<rparr>]\<rparr>)
   \<and> ''/data/password'' \<noteq> walletPath stub_loaded
   \<and> disk (snd (snd (Save stub_lib stub_loaded stub_full_disk))) ''/data/password'' =
       disk stub_full_disk ''/data/password''"
proof -
  have h2: "Marshal stub_lib (ws stub_loaded) = Inr [1, 1, 1]"
    by (simp add: stub_lib_def stub_loaded_def stub_fresh_def)
  have h3: "''/data/password'' \<noteq> walletPath stub_loaded"
    by (simp add: stub_paths)
  have f: "writeFault stub_full_disk ''/data/wallet'' = Some (WriteFails 1 ''no space left on device'')"
      "disk stub_full_disk = [''/data/wallet'' \<mapsto> \<lparr>content = [2], perm = FileMode\<rparr>]"
    by (simp_all add: stub_full_disk_def stub_legacy_def)
  show ?thesis
    using Save_write_outcome [OF stub_loaded_initialized h2, of stub_full_disk]
      stub_loaded_initialized h2 h3 f
    by (simp add: stub_paths)
qed

text \<open>
  Claim C2, as the specification words it, fails. The store file held the legacy record
  \<open>[2]\<close>; \<open>Save\<close> fails with the write error; the file now holds \<open>[1]\<close>, the first byte
  of the new record, and the previous contents are lost.
\<close>

theorem Save_atomic_counterexample:
  "IsInitialized stub_loaded
   \<and> map_option content (disk stub_full_disk (walletPath stub_loaded)) = Some [2]
   \<and> fst (Save stub_lib stub_loaded stub_full_disk) =
       Some (WriteIOFailure (ErrOther ''no space left on device''))
   \<and> map_option content
       (disk (snd (snd (Save stub_lib stub_loaded stub_full_disk))) (walletPath stub_loaded)) =
       Some [1]"
  by (simp add: wallet_defs stub_defs stub_full_disk_def stub_legacy_def)

subsection \<open>C3: recovery is a function of the mnemonic\<close>

text \<open>
  Claim C3. Take two facades fresh from \<open>NewLocalWallet\<close>, of any paths and chains and in
  any worlds, and let \<open>Recover\<close> succeed on each, in any two worlds (other passwords,
  random sources and files), with the same mnemonic, path template and index. Then the
  mnemonic is valid, neither facade was initialized, and each run has done exactly this: the seed is the BIP-39 seed of the mnemonic under the empty
  passphrase, the master key is the one \<open>NewMaster\<close> derives from that seed, and the store
  holds the seed encrypted under the world's password, the template and the index. So both
  wallets are initialized with the same seed and master key, their node-key caches are
  empty, \<open>GetNodeKey\<close> derives the same key and path from the master key, the template
  and the index, and the node address is the same. A run of \<open>Initialize\<close> on a fresh
  facade that returns this mnemonic ends with the same seed, master key and node address.
\<close>

theorem Recover_deterministic:
  assumes "NewLocalWallet l path1 c1 fee1 pfee1 lim1 wd1 = (Inr w1, wd1')"
    and "NewLocalWallet l path2 c2 fee2 pfee2 lim2 wd2 = (Inr w2, wd2')"
    and "Recover l p i m w1 wa = (None, w1', wa')"
    and "Recover l p i m w2 wb = (None, w2', wb')"
  shows "\<exists>k pa ea pb eb.
       IsMnemonicValid l m \<and> \<not> IsInitialized w1 \<and> \<not> IsInitialized w2
     \<and> NewMaster l (NewSeed l m []) = Inr k
     \<and> GetPassword wa = Inr pa \<and> Encrypt l (NewSeed l m []) pa (rand wa (randPos wa)) = Inr ea
     \<and> GetPassword wb = Inr pb \<and> Encrypt l (NewSeed l m []) pb (rand wb (randPos wb)) = Inr eb
     \<and> w1' = w1\<lparr>seed := Some (NewSeed l m []), mk := Some k,
                 ws := Some \<lparr>Crypto = Some ea, Name = encryptor_Name l,
                             Version = encryptor_Version l,
                             UUID = uuid_New l (rand wa (Suc (randPos wa))),
                             DerivationPath = p, WalletIndex = i, NextAccount = 0\<rparr>\<rparr>
     \<and> w2' = w2\<lparr>seed := Some (NewSeed l m []), mk := Some k,
                 ws := Some \<lparr>Crypto = Some eb, Name = encryptor_Name l,
                             Version = encryptor_Version l,
                             UUID = uuid_New l (rand wb (Suc (randPos wb))),
                             DerivationPath = p, WalletIndex = i, NextAccount = 0\<rparr>\<rparr>
     \<and> seed w1' = Some (NewSeed l m []) \<and> mk w1' = Some k
     \<and> seed w2' = seed w1' \<and> mk w2' = mk w1'
     \<and> IsInitialized w1' \<and> IsInitialized w2'
     \<and> nodeKey w1' = None \<and> nodeKey w2' = None
     \<and> fst (GetNodeKey d w1') =
         (case DeriveNodeKey d k p i of
            Inl e \<Rightarrow> Inl (KeyDerivationFailure e)
          | Inr key \<Rightarrow> Inr (key, FillTemplate d p i))
     \<and> fst (GetNodeKey d w2') = fst (GetNodeKey d w1')
     \<and> NodeAddress d w1' =
         (case DeriveNodeKey d k p i of
            Inl e \<Rightarrow> Inl (KeyDerivationFailure e)
          | Inr key \<Rightarrow> Inr (KeyAddress d key))
     \<and> NodeAddress d w2' = NodeAddress d w1'
     \<and> (\<forall>path3 c3 fee3 pfee3 lim3 wd3 w3 wd3' wc w3' wc'.
           NewLocalWallet l path3 c3 fee3 pfee3 lim3 wd3 = (Inr w3, wd3')
           \<and> Initialize l p i w3 wc = (Inr m, w3', wc') \<longrightarrow>
             seed w3' = seed w1' \<and> mk w3' = mk w1'
             \<and> fst (GetNodeKey d w3') = fst (GetNodeKey d w1')
             \<and> NodeAddress d w3' = NodeAddress d w1')"
proof -
  from Recover_result [OF assms(3)] obtain k pa ea where
    r1: "NewMaster l (NewSeed l m []) = Inr k" "GetPassword wa = Inr pa"
        "Encrypt l (NewSeed l m []) pa (rand wa (randPos wa)) = Inr ea"
        "w1' = w1\<lparr>seed := Some (NewSeed l m []), mk := Some k,
                 ws := Some \<lparr>Crypto = Some ea, Name = encryptor_Name l,
                             Version = encryptor_Version l,
                             UUID = uuid_New l (rand wa (Suc (randPos wa))),
                             DerivationPath = p, WalletIndex = i, NextAccount = 0\<rparr>\<rparr>"
    by blast
  from Recover_result [OF assms(4)] obtain k' pb eb where
    r2: "NewMaster l (NewSeed l m []) = Inr k'" "GetPassword wb = Inr pb"
        "Encrypt l (NewSeed l m []) pb (rand wb (randPos wb)) = Inr eb"
        "w2' = w2\<lparr>seed := Some (NewSeed l m []), mk := Some k',
                 ws := Some \<lparr>Crypto = Some eb, Name = encryptor_Name l,
                             Version = encryptor_Version l,
                             UUID = uuid_New l (rand wb (Suc (randPos wb))),
                             DerivationPath = p, WalletIndex = i, NextAccount = 0\<rparr>\<rparr>"
    by blast
  from r1(1) r2(1) have kk: "k' = k" by simp
  from NewLocalWallet_cache [OF assms(1)] have c1: "nodeKey w1 = None" by simp
  from NewLocalWallet_cache [OF assms(2)] have c2: "nodeKey w2 = None" by simp
  have g1: "fst (GetNodeKey d w1') =
         (case DeriveNodeKey d k p i of
            Inl e \<Rightarrow> Inl (KeyDerivationFailure e)
          | Inr key \<Rightarrow> Inr (key, FillTemplate d p i))"
    unfolding r1(4) by (rule GetNodeKey_derives [OF c1]) simp_all
  have g2: "fst (GetNodeKey d w2') = fst (GetNodeKey d w1')"
    unfolding g1 unfolding r2(4) kk by (rule GetNodeKey_derives [OF c2]) simp_all
  have a1: "NodeAddress d w1' =
         (case DeriveNodeKey d k p i of
            Inl e \<Rightarrow> Inl (KeyDerivationFailure e)
          | Inr key \<Rightarrow> Inr (KeyAddress d key))"
    unfolding r1(4) by (rule NodeAddress_derives [OF c1]) simp_all
  have a2: "NodeAddress d w2' = NodeAddress d w1'"
    using g2 by (simp add: NodeAddress_def)
  have init: "seed w3' = seed w1' \<and> mk w3' = mk w1'
             \<and> fst (GetNodeKey d w3') = fst (GetNodeKey d w1')
             \<and> NodeAddress d w3' = NodeAddress d w1'"
    if n: "NewLocalWallet l path3 c3 fee3 pfee3 lim3 wd3 = (Inr w3, wd3')"
      and h: "Initialize l p i w3 wc = (Inr m, w3', wc')"
    for path3 c3 fee3 pfee3 lim3 wd3 w3 wd3' wc w3' wc'
  proof -
    from Initialize_result [OF h] obtain k3 st3 where
      r3: "NewMaster l (NewSeed l m []) = Inr k3"
        "w3' = w3\<lparr>seed := Some (NewSeed l m []), mk := Some k3, ws := Some st3\<rparr>"
        "DerivationPath st3 = p" "WalletIndex st3 = i"
      by blast
    from r1(1) r3(1) have k3: "k3 = k" by simp
    from NewLocalWallet_cache [OF n] have c3: "nodeKey w3 = None" by simp
    have g3: "fst (GetNodeKey d w3') = fst (GetNodeKey d w1')"
      unfolding g1 unfolding r3(2) k3 by (rule GetNodeKey_derives [OF c3 r3(3,4)])
    then have "NodeAddress d w3' = NodeAddress d w1'"
      by (simp add: NodeAddress_def)
    with g3 r1(4) r3(2) k3 show ?thesis by simp
  qed
  have s: "seed w1' = Some (NewSeed l m []) \<and> mk w1' = Some k
      \<and> seed w2' = seed w1' \<and> mk w2' = mk w1' \<and> IsInitialized w1' \<and> IsInitialized w2'
      \<and> nodeKey w1' = None \<and> nodeKey w2' = None"
    using r1(4) r2(4) kk c1 c2 by (simp add: IsInitialized_def)
  have v: "IsMnemonicValid l m \<and> \<not> IsInitialized w1 \<and> \<not> IsInitialized w2"
    using assms(3,4) by (auto simp: Recover_def split: if_splits)
  from v r1 r2 kk g1 g2 a1 a2 s init show ?thesis by blast
qed

text \<open>
  Claim C3, witness: a recovery in the empty world, a recovery by another process later on
  (another wallet path, chain, password and random position), and an initialization that
  draws the same mnemonic, each on a facade fresh from \<open>NewLocalWallet\<close>.
\<close>

theorem Recover_deterministic_witness:
  "NewLocalWallet stub_lib ''/data/wallet'' 1 None None 0 stub_world = (Inr stub_fresh, stub_world)
   \<and> NewLocalWallet stub_lib ''/tmp/other'' 5 None None 0 stub_later = (Inr stub_elsewhere, stub_later)
   \<and> fst (Recover stub_lib LedgerLiveNodeKeyPath 2 stub_mnemonic stub_fresh stub_world) = None
   \<and> fst (Recover stub_lib LedgerLiveNodeKeyPath 2 stub_mnemonic stub_elsewhere stub_later) = None
   \<and> fst (Initialize stub_lib LedgerLiveNodeKeyPath 2 stub_elsewhere stub_world) = Inr stub_mnemonic
   \<and> seed (fst (snd (Recover stub_lib LedgerLiveNodeKeyPath 2 stub_mnemonic stub_fresh stub_world))) =
       Some stub_seed
   \<and> seed (fst (snd (Recover stub_lib LedgerLiveNodeKeyPath 2 stub_mnemonic stub_elsewhere stub_later))) =
       Some stub_seed
   \<and> seed (fst (snd (Initialize stub_lib LedgerLiveNodeKeyPath 2 stub_elsewhere stub_world))) =
       Some stub_seed
   \<and> mk (fst (snd (Recover stub_lib LedgerLiveNodeKeyPath 2 stub_mnemonic stub_fresh stub_world))) =
       Some (ExtendedKey stub_seed)
   \<and> mk (fst (snd (Recover stub_lib LedgerLiveNodeKeyPath 2 stub_mnemonic stub_elsewhere stub_later))) =
       Some (ExtendedKey stub_seed)
   \<and> mk (fst (snd (Initialize stub_lib LedgerLiveNodeKeyPath 2 stub_elsewhere stub_world))) =
       Some (ExtendedKey stub_seed)
   \<and> fst (GetNodeKey stub_derivation
        (fst (snd (Recover stub_lib LedgerLiveNodeKeyPath 2 stub_mnemonic stub_fresh stub_world)))) =
       Inr (EcdsaPrivateKey (2 # stub_seed), ''m/44'/60'/2/0/0'')
   \<and> NodeAddress stub_derivation
        (fst (snd (Recover stub_lib LedgerLiveNodeKeyPath 2 stub_mnemonic stub_fresh stub_world))) =
       Inr 5
   \<and> NodeAddress stub_derivation
        (fst (snd (Recover stub_lib LedgerLiveNodeKeyPath 2 stub_mnemonic stub_elsewhere stub_later))) =
       Inr 5
   \<and> NodeAddress stub_derivation
        (fst (snd (Initialize stub_lib LedgerLiveNodeKeyPath 2 stub_elsewhere stub_world))) =
       Inr 5"
proof -
  let ?r1 = "Recover stub_lib LedgerLiveNodeKeyPath 2 stub_mnemonic stub_fresh stub_world"
  let ?r2 = "Recover stub_lib LedgerLiveNodeKeyPath 2 stub_mnemonic stub_elsewhere stub_later"
  let ?r3 = "Initialize stub_lib LedgerLiveNodeKeyPath 2 stub_elsewhere stub_world"
  have n1: "NewLocalWallet stub_lib ''/data/wallet'' 1 None None 0 stub_world =
      (Inr stub_fresh, stub_world)"
    by (simp add: wallet_defs stub_defs)
  have n2: "NewLocalWallet stub_lib ''/tmp/other'' 5 None None 0 stub_later =
      (Inr stub_elsewhere, stub_later)"
    by (simp add: wallet_defs stub_defs stub_elsewhere_def stub_later_def)
  have f1: "fst ?r1 = None"
    by (simp add: wallet_defs stub_defs)
  have f2: "fst ?r2 = None"
    by (simp add: wallet_defs stub_defs stub_elsewhere_def stub_later_def)
  have f3: "fst ?r3 = Inr stub_mnemonic"
    by (simp add: wallet_defs stub_defs stub_elsewhere_def)
  have h1: "?r1 = (None, fst (snd ?r1), snd (snd ?r1))"
    using f1 by (metis prod.collapse)
  have h2: "?r2 = (None, fst (snd ?r2), snd (snd ?r2))"
    using f2 by (metis prod.collapse)
  have h3: "?r3 = (Inr stub_mnemonic, fst (snd ?r3), snd (snd ?r3))"
    using f3 by (metis prod.collapse)
  have s: "NewSeed stub_lib stub_mnemonic [] = stub_seed"
    by (simp add: stub_lib_def)
  have m: "NewMaster stub_lib stub_seed = Inr (ExtendedKey stub_seed)"
    by (simp add: stub_lib_def stub_seed_def)
  have dk: "DeriveNodeKey stub_derivation (ExtendedKey stub_seed) LedgerLiveNodeKeyPath 2 =
      Inr (EcdsaPrivateKey (2 # stub_seed))"
    by (simp add: stub_derivation_def LedgerLiveNodeKeyPath_def)
  have ft: "FillTemplate stub_derivation LedgerLiveNodeKeyPath 2 = ''m/44'/60'/2/0/0''"
    by (simp add: stub_derivation_def)
  have ka: "KeyAddress stub_derivation (EcdsaPrivateKey (2 # stub_seed)) = 5"
    by (simp add: stub_derivation_def stub_seed_def)
  from Recover_deterministic [OF n1 n2 h1 h2, of stub_derivation] n2 h3
  have "\<exists>k. NewMaster stub_lib (NewSeed stub_lib stub_mnemonic []) = Inr k
       \<and> seed (fst (snd ?r1)) = Some (NewSeed stub_lib stub_mnemonic [])
       \<and> mk (fst (snd ?r1)) = Some k
       \<and> seed (fst (snd ?r2)) = seed (fst (snd ?r1))
       \<and> mk (fst (snd ?r2)) = mk (fst (snd ?r1))
       \<and> fst (GetNodeKey stub_derivation (fst (snd ?r1))) =
         (case DeriveNodeKey stub_derivation k LedgerLiveNodeKeyPath 2 of
            Inl e \<Rightarrow> Inl (KeyDerivationFailure e)
          | Inr key \<Rightarrow> Inr (key, FillTemplate stub_derivation LedgerLiveNodeKeyPath 2))
       \<and> NodeAddress stub_derivation (fst (snd ?r1)) =
         (case DeriveNodeKey stub_derivation k LedgerLiveNodeKeyPath 2 of
            Inl e \<Rightarrow> Inl (KeyDerivationFailure e)
          | Inr key \<Rightarrow> Inr (KeyAddress stub_derivation key))
       \<and> NodeAddress stub_derivation (fst (snd ?r2)) = NodeAddress stub_derivation (fst (snd ?r1))
       \<and> seed (fst (snd ?r3)) = seed (fst (snd ?r1))
       \<and> mk (fst (snd ?r3)) = mk (fst (snd ?r1))
       \<and> NodeAddress stub_derivation (fst (snd ?r3)) = NodeAddress stub_derivation (fst (snd ?r1))"
    by (elim exE conjE) blast
  then obtain k where
    t: "NewMaster stub_lib (NewSeed stub_lib stub_mnemonic []) = Inr k"
       "seed (fst (snd ?r1)) = Some (NewSeed stub_lib stub_mnemonic [])"
       "mk (fst (snd ?r1)) = Some k"
       "seed (fst (snd ?r2)) = seed (fst (snd ?r1))"
       "mk (fst (snd ?r2)) = mk (fst (snd ?r1))"
       "fst (GetNodeKey stub_derivation (fst (snd ?r1))) =
         (case DeriveNodeKey stub_derivation k LedgerLiveNodeKeyPath 2 of
            Inl e \<Rightarrow> Inl (KeyDerivationFailure e)
          | Inr key \<Rightarrow> Inr (key, FillTemplate stub_derivation LedgerLiveNodeKeyPath 2))"
       "NodeAddress stub_derivation (fst (snd ?r1)) =
         (case DeriveNodeKey stub_derivation k LedgerLiveNodeKeyPath 2 of
            Inl e \<Rightarrow> Inl (KeyDerivationFailure e)
          | Inr key \<Rightarrow> Inr (KeyAddress stub_derivation key))"
       "NodeAddress stub_derivation (fst (snd ?r2)) = NodeAddress stub_derivation (fst (snd ?r1))"
       "seed (fst (snd ?r3)) = seed (fst (snd ?r1))"
       "mk (fst (snd ?r3)) = mk (fst (snd ?r1))"
       "NodeAddress stub_derivation (fst (snd ?r3)) = NodeAddress stub_derivation (fst (snd ?r1))"
    by blast
  from t(1) s m have k: "k = ExtendedKey stub_seed" by simp
  from t k s dk ft ka n1 n2 f1 f2 f3 show ?thesis by simp
qed

subsection \<open>C4: the guards of Initialize and Recover\<close>

text \<open>
  Claim C4, as the code has it. On an initialized wallet \<open>Initialize\<close> and \<open>Recover\<close>
  fail with "Wallet is already initialized" and change neither the wallet nor the world,
  whatever the mnemonic. On a wallet that is not initialized, \<open>Recover\<close> with a mnemonic
  that fails validation fails with "Invalid mnemonic" and changes neither the wallet nor
  the world.
\<close>

theorem Initialize_Recover_guards:
  "(IsInitialized w \<longrightarrow>
      Initialize l p i w wd = (Inl AlreadyInitialized, w, wd)
      \<and> Recover l p i m w wd = (Some AlreadyInitialized, w, wd))
   \<and> (\<not> IsInitialized w \<and> \<not> IsMnemonicValid l m \<longrightarrow>
      Recover l p i m w wd = (Some (InvalidMnemonic m), w, wd))"
  by (simp add: Initialize_def Recover_def)

text \<open>
  Claim C4, witness: the loaded wallet for the first guard, the fresh wallet and a
  three-word phrase for the second.
\<close>

theorem Initialize_Recover_guards_witness:
  "IsInitialized stub_loaded
   \<and> Initialize stub_lib DefaultNodeKeyPath 0 stub_loaded stub_saved =
       (Inl AlreadyInitialized, stub_loaded, stub_saved)
   \<and> Recover stub_lib DefaultNodeKeyPath 0 stub_mnemonic stub_loaded stub_saved =
       (Some AlreadyInitialized, stub_loaded, stub_saved)
   \<and> \<not> IsInitialized stub_fresh
   \<and> \<not> IsMnemonicValid stub_lib ''legal winner thank''
   \<and> Recover stub_lib DefaultNodeKeyPath 0 ''legal winner thank'' stub_fresh stub_world =
       (Some (InvalidMnemonic ''legal winner thank''), stub_fresh, stub_world)"
proof -
  have h: "\<not> IsMnemonicValid stub_lib ''legal winner thank''"
    by (simp add: stub_lib_def stub_mnemonic_def)
  show ?thesis
    using
      Initialize_Recover_guards
        [of stub_loaded stub_lib DefaultNodeKeyPath 0 stub_saved stub_mnemonic]
      Initialize_Recover_guards
        [of stub_fresh stub_lib DefaultNodeKeyPath 0 stub_world "''legal winner thank''"]
      stub_loaded_initialized stub_fresh_uninitialized h
    by simp
qed

text \<open>
  Claim C4, as the specification words it ("for every wallet, Recover with a mnemonic that
  fails validation fails with InvalidMnemonic"), fails on an initialized wallet: the
  initialization guard comes first, and the error is "Wallet is already initialized".
\<close>

theorem Recover_invalid_mnemonic_counterexample:
  "IsInitialized stub_loaded
   \<and> \<not> IsMnemonicValid stub_lib ''legal winner thank''
   \<and> fst (Recover stub_lib DefaultNodeKeyPath 0 ''legal winner thank'' stub_loaded stub_saved) =
       Some AlreadyInitialized
   \<and> fst (Recover stub_lib DefaultNodeKeyPath 0 ''legal winner thank'' stub_loaded stub_saved) \<noteq>
       Some (InvalidMnemonic ''legal winner thank'')"
  by (simp add: wallet_defs stub_defs)

subsection \<open>C5: no store file\<close>

text \<open>
  Claim C5, as the code has it. When there is no file at the wallet's path, \<open>Reload\<close>
  returns no error and leaves the wallet and the world exactly as they were, so the wallet
  is initialized afterwards if and only if it was before; \<open>loadStore\<close> reports
  \<open>(false, nil)\<close>; \<open>GetInitialized\<close> reports whether the wallet was initialized in
  memory; and \<open>NewLocalWallet\<close> returns a wallet that is not initialized, with no error.
\<close>

theorem Reload_missing_file:
  assumes "disk wd (walletPath w) = None"
  shows "Reload l w wd = (None, w, wd)
     \<and> loadStore l w wd = ((False, None), w, wd)
     \<and> IsInitialized (fst (snd (Reload l w wd))) = IsInitialized w
     \<and> GetInitialized l w wd = ((IsInitialized w, None), w, wd)
     \<and> (\<exists>w0. NewLocalWallet l (walletPath w) c fee pfee lim wd = (Inr w0, wd)
            \<and> \<not> IsInitialized w0)"
  using assms
  by (simp add: Reload_def NewLocalWallet_def GetInitialized_def loadStore_def os_ReadFile_def
      IsInitialized_def split: option.splits)

text \<open>Claim C5, witness: the fresh wallet in the world without files.\<close>

theorem Reload_missing_file_witness:
  "disk stub_world (walletPath stub_fresh) = None
   \<and> Reload stub_lib stub_fresh stub_world = (None, stub_fresh, stub_world)
   \<and> \<not> IsInitialized (fst (snd (Reload stub_lib stub_fresh stub_world)))
   \<and> NewLocalWallet stub_lib ''/data/wallet'' 1 None None 0 stub_world =
       (Inr stub_fresh, stub_world)"
proof -
  have h: "disk stub_world (walletPath stub_fresh) = None"
    by (simp add: stub_world_def)
  have c: "NewLocalWallet stub_lib ''/data/wallet'' 1 None None 0 stub_world =
      (Inr stub_fresh, stub_world)"
    by (simp add: wallet_defs stub_defs)
  show ?thesis
    using Reload_missing_file [OF h, of stub_lib] h stub_fresh_uninitialized c by simp
qed

text \<open>
  Claim C5, as the specification words it ("for every wallet ... leaves the facade
  uninitialized"), fails for a wallet that holds keys in memory: after a \<open>Recover\<close> that
  was never saved there is no store file, \<open>Reload\<close> returns no error, and the wallet is
  still initialized.
\<close>

theorem Reload_missing_file_counterexample:
  "fst (Recover stub_lib DefaultNodeKeyPath 0 stub_mnemonic stub_fresh stub_world) = None
   \<and> disk (snd (snd (Recover stub_lib DefaultNodeKeyPath 0 stub_mnemonic stub_fresh stub_world)))
        (walletPath
          (fst (snd (Recover stub_lib DefaultNodeKeyPath 0 stub_mnemonic stub_fresh stub_world)))) =
       None
   \<and> fst (Reload stub_lib
        (fst (snd (Recover stub_lib DefaultNodeKeyPath 0 stub_mnemonic stub_fresh stub_world)))
        (snd (snd (Recover stub_lib DefaultNodeKeyPath 0 stub_mnemonic stub_fresh stub_world)))) =
       None
   \<and> IsInitialized (fst (snd (Reload stub_lib
        (fst (snd (Recover stub_lib DefaultNodeKeyPath 0 stub_mnemonic stub_fresh stub_world)))
        (snd (snd (Recover stub_lib DefaultNodeKeyPath 0 stub_mnemonic stub_fresh stub_world))))))"
  by (simp add: wallet_defs stub_defs)

subsection \<open>C6: legacy stores\<close>

text \<open>
  Claim C6. When the store file is read and decodes without error into a record whose
  derivation path is empty (what the decoder leaves when the document has no
  \<open>derivationPath\<close> field), the record in memory after \<open>loadStore\<close> is that record with
  the path \<open>m/44'/60'/0'/0/%d\<close>, whatever happens to the password and the decryption
  afterwards; and \<open>loadStore\<close> leaves the world, hence the file, as it was.
\<close>

theorem loadStore_legacy_path:
  assumes "os_ReadFile wd (walletPath w) = Inr bs"
    and "Unmarshal l bs = (st, None)"
    and "DerivationPath st = []"
  shows "ws (fst (snd (loadStore l w wd))) = Some (st\<lparr>DerivationPath := DefaultNodeKeyPath\<rparr>)
     \<and> DefaultNodeKeyPath = ''m/44'/60'/0'/0/%d''
     \<and> snd (snd (loadStore l w wd)) = wd"
proof -
  have "ws (fst (snd (loadStore l w wd))) = Some (st\<lparr>DerivationPath := DefaultNodeKeyPath\<rparr>)"
    using assms by (simp add: loadStore_def Let_def split: sum.splits)
  then show ?thesis
    by (simp add: loadStore_world DefaultNodeKeyPath_def)
qed

text \<open>Claim C6, witness: the fresh wallet loads the legacy store file.\<close>

theorem loadStore_legacy_path_witness:
  "os_ReadFile stub_legacy (walletPath stub_fresh) = Inr [2]
   \<and> Unmarshal stub_lib [2] = (stub_store\<lparr>DerivationPath := []\<rparr>, None)
   \<and> DerivationPath (stub_store\<lparr>DerivationPath := []\<rparr>) = []
   \<and> ws (fst (snd (loadStore stub_lib stub_fresh stub_legacy))) =
       Some (stub_store\<lparr>DerivationPath := ''m/44'/60'/0'/0/%d''\<rparr>)
   \<and> snd (snd (loadStore stub_lib stub_fresh stub_legacy)) = stub_legacy
   \<and> map_option content (disk stub_legacy (walletPath stub_fresh)) = Some [2]"
proof -
  have h1: "os_ReadFile stub_legacy (walletPath stub_fresh) = Inr [2]"
    by (simp add: os_ReadFile_def stub_legacy_def stub_world_def stub_paths)
  have h2: "Unmarshal stub_lib [2] = (stub_store\<lparr>DerivationPath := []\<rparr>, None)"
    by (simp add: stub_lib_def)
  have h3: "DerivationPath (stub_store\<lparr>DerivationPath := []\<rparr>) = []"
    by simp
  have h4: "map_option content (disk stub_legacy (walletPath stub_fresh)) = Some [2]"
    by (simp add: stub_legacy_def stub_paths)
  show ?thesis
    using loadStore_legacy_path [OF h1 h2 h3] h1 h2 h4 by simp
qed

subsection \<open>C7: the scheme name and version of a store\<close>




subsection \<open>C8: deleting twice\<close>

text \<open>
  Claim C8. As long as the operating system raises no error of its own for the wallet's
  path: \<open>Delete\<close> with no file at the path returns no error and changes nothing;
  \<open>Delete\<close> returns no error, whether the file is there or not; and after a \<open>Delete\<close>
  that returned no error, a second \<open>Delete\<close> returns no error and changes nothing.
\<close>

theorem Delete_idempotent:
  "(disk wd (walletPath w) = None \<and> statFault wd (walletPath w) = None \<longrightarrow>
      Delete w wd = (None, w, wd))
   \<and> (statFault wd (walletPath w) = None \<and> removeFault wd (walletPath w) = None \<longrightarrow>
      fst (Delete w wd) = None)
   \<and> (fst (Delete w wd) = None \<longrightarrow>
      Delete (fst (snd (Delete w wd))) (snd (snd (Delete w wd))) =
        (None, fst (snd (Delete w wd)), snd (snd (Delete w wd))))"
  by (auto simp: Delete_def os_Stat_def os_Remove_def split: option.splits os_error.splits)

text \<open>
  Claim C8, witness: a delete with no file, and two deletes in a row of an existing file.
\<close>

theorem Delete_idempotent_witness:
  "disk stub_world (walletPath stub_fresh) = None
   \<and> statFault stub_world (walletPath stub_fresh) = None
   \<and> Delete stub_fresh stub_world = (None, stub_fresh, stub_world)
   \<and> disk stub_saved (walletPath stub_loaded) \<noteq> None
   \<and> statFault stub_saved (walletPath stub_loaded) = None
   \<and> removeFault stub_saved (walletPath stub_loaded) = None
   \<and> fst (Delete stub_loaded stub_saved) = None
   \<and> Delete (fst (snd (Delete stub_loaded stub_saved))) (snd (snd (Delete stub_loaded stub_saved))) =
       (None, fst (snd (Delete stub_loaded stub_saved)), snd (snd (Delete stub_loaded stub_saved)))"
proof -
  have h1: "disk stub_world (walletPath stub_fresh) = None"
    by (simp add: stub_world_def)
  have h2: "statFault stub_world (walletPath stub_fresh) = None"
    by (simp add: stub_world_def)
  have h3: "statFault stub_saved (walletPath stub_loaded) = None"
    by (simp add: stub_saved_def stub_world_def)
  have h4: "removeFault stub_saved (walletPath stub_loaded) = None"
    by (simp add: stub_saved_def stub_world_def)
  have h5: "disk stub_saved (walletPath stub_loaded) \<noteq> None"
    by (simp add: stub_saved_def stub_paths)
  show ?thesis
    using Delete_idempotent [of stub_world stub_fresh] Delete_idempotent [of stub_saved stub_loaded]
      h1 h2 h3 h4 h5
    by simp
qed

subsection \<open>C9: what Delete leaves alone\<close>

text \<open>
  Claim C9. \<open>Delete\<close> returns the wallet it was given: the seed, the master key, the
  store record, the node-key cache and the validator-key cache are what they were. On disk
  no path other than the wallet's changes, and after a \<open>Delete\<close> that returned no error
  there is no file at the wallet's path.
\<close>

theorem Delete_frame:
  "fst (snd (Delete w wd)) = w
   \<and> seed (fst (snd (Delete w wd))) = seed w
   \<and> mk (fst (snd (Delete w wd))) = mk w
   \<and> ws (fst (snd (Delete w wd))) = ws w
   \<and> nodeKey (fst (snd (Delete w wd))) = nodeKey w
   \<and> nodeKeyPath (fst (snd (Delete w wd))) = nodeKeyPath w
   \<and> validatorKeys (fst (snd (Delete w wd))) = validatorKeys w
   \<and> (\<forall>p. p \<noteq> walletPath w \<longrightarrow> disk (snd (snd (Delete w wd))) p = disk wd p)
   \<and> (fst (Delete w wd) = None \<longrightarrow> disk (snd (snd (Delete w wd))) (walletPath w) = None)"
  by (auto simp: Delete_def os_Stat_def os_Remove_def split: option.splits os_error.splits)

text \<open>
  Claim C9, witness: the loaded wallet deletes its store file; it is still initialized, and
  the file next to the store is still there.
\<close>

theorem Delete_frame_witness:
  "fst (snd (Delete stub_loaded stub_two_files)) = stub_loaded
   \<and> IsInitialized (fst (snd (Delete stub_loaded stub_two_files)))
   \<and> ''/data/password'' \<noteq> walletPath stub_loaded
   \<and> disk (snd (snd (Delete stub_loaded stub_two_files))) ''/data/password'' =
       Some \<lparr>content = [7], perm = FileMode\<rparr>
   \<and> fst (Delete stub_loaded stub_two_files) = None
   \<and> disk stub_two_files (walletPath stub_loaded) = Some \<lparr>content = [1, 1, 1], perm = FileMode\<rparr>
   \<and> disk (snd (snd (Delete stub_loaded stub_two_files))) (walletPath stub_loaded) = None"
proof -
  have h1: "''/data/password'' \<noteq> walletPath stub_loaded"
    by (simp add: stub_paths)
  have h2: "fst (Delete stub_loaded stub_two_files) = None"
    by (simp add: wallet_defs stub_defs stub_two_files_def)
  have h3: "disk stub_two_files (walletPath stub_loaded) =
      Some \<lparr>content = [1, 1, 1], perm = FileMode\<rparr>"
    by (simp add: stub_two_files_def stub_saved_def stub_paths)
  have h5: "disk stub_two_files ''/data/password'' = Some \<lparr>content = [7], perm = FileMode\<rparr>"
    by (simp add: stub_two_files_def)
  from Delete_frame [of stub_loaded stub_two_files] h1 h2
  have "fst (snd (Delete stub_loaded stub_two_files)) = stub_loaded
      \<and> disk (snd (snd (Delete stub_loaded stub_two_files))) ''/data/password'' =
          disk stub_two_files ''/data/password''
      \<and> disk (snd (snd (Delete stub_loaded stub_two_files))) (walletPath stub_loaded) = None"
    by blast
  with h1 h2 h3 h5 stub_loaded_initialized show ?thesis by simp
qed

subsection \<open>C10: TestRecovery overwrites\<close>

text \<open>
  Claim C10. In every wallet state, initialized or not, \<open>TestRecovery\<close> with a valid
  mnemonic whose seed the master-key derivation accepts returns no error and replaces the
  seed, the master key and the store record: the new store has a nil \<open>Crypto\<close> field, the
  encryptor's name and version, a new UUID, the given path and index and next account 0.
  The other fields of the wallet stay, and the world only loses the random bytes of the
  UUID. \<open>Recover\<close> with the same arguments on an initialized wallet fails with
  "Wallet is already initialized".
\<close>

theorem TestRecovery_overwrites:
  assumes "IsMnemonicValid l m"
    and "NewMaster l (NewSeed l m []) = Inr k"
  shows "TestRecovery l p i m w wd =
           (None,
            w\<lparr>seed := Some (NewSeed l m []), mk := Some k,
              ws := Some \<lparr>Crypto = None, Name = encryptor_Name l, Version = encryptor_Version l,
                          UUID = uuid_New l (rand wd (randPos wd)), DerivationPath = p,
                          WalletIndex = i, NextAccount = 0\<rparr>\<rparr>,
            wd\<lparr>randPos := Suc (randPos wd)\<rparr>)
     \<and> IsInitialized (fst (snd (TestRecovery l p i m w wd)))
     \<and> map_option Crypto (ws (fst (snd (TestRecovery l p i m w wd)))) = Some None
     \<and> (IsInitialized w \<longrightarrow> fst (Recover l p i m w wd) = Some AlreadyInitialized)"
  using assms
  by (simp add: TestRecovery_def Recover_def rand_Read_def Let_def IsInitialized_def)

text \<open>
  Claim C10, witness: the loaded wallet, whose seed and master key are other ones and whose
  store has an encrypted seed, tests the mnemonic.
\<close>

theorem TestRecovery_overwrites_witness:
  "IsMnemonicValid stub_lib stub_mnemonic
   \<and> NewMaster stub_lib (NewSeed stub_lib stub_mnemonic []) = Inr (ExtendedKey stub_seed)
   \<and> IsInitialized stub_loaded
   \<and> seed stub_loaded = Some [0xaa, 0xbb]
   \<and> map_option Crypto (ws stub_loaded) = Some (Some [(''password'', JsonValue ''correct'')])
   \<and> TestRecovery stub_lib MyEtherWalletNodeKeyPath 3 stub_mnemonic stub_loaded stub_saved =
       (None,
        stub_loaded\<lparr>seed := Some stub_seed, mk := Some (ExtendedKey stub_seed),
                    ws := Some \<lparr>Crypto = None, Name = ''keystore'', Version = 4, UUID = 0,
                                DerivationPath = MyEtherWalletNodeKeyPath, WalletIndex = 3,
                                NextAccount = 0\<rparr>\<rparr>,
        stub_saved\<lparr>randPos := 1\<rparr>)
   \<and> fst (Recover stub_lib MyEtherWalletNodeKeyPath 3 stub_mnemonic stub_loaded stub_saved) =
       Some AlreadyInitialized"
proof -
  have h1: "IsMnemonicValid stub_lib stub_mnemonic"
    by (simp add: stub_lib_def)
  have h2: "NewMaster stub_lib (NewSeed stub_lib stub_mnemonic []) = Inr (ExtendedKey stub_seed)"
    by (simp add: stub_lib_def stub_seed_def)
  have e: "NewSeed stub_lib stub_mnemonic [] = stub_seed"
      "encryptor_Name stub_lib = ''keystore''" "encryptor_Version stub_lib = 4"
      "uuid_New stub_lib (rand stub_saved (randPos stub_saved)) = 0"
      "randPos stub_saved = 0"
    by (simp_all add: stub_lib_def stub_saved_def stub_world_def)
  have o: "seed stub_loaded = Some [0xaa, 0xbb]"
      "map_option Crypto (ws stub_loaded) = Some (Some [(''password'', JsonValue ''correct'')])"
    by (simp_all add: stub_loaded_def stub_store_def)
  show ?thesis
    using TestRecovery_overwrites [OF h1 h2, of MyEtherWalletNodeKeyPath 3 stub_loaded stub_saved]
      h1 h2 stub_loaded_initialized e o
    by simp
qed

end
